theory Spec2Isabelle
  imports Main "HOL-Library.Word"
begin

section \<open>JavaScript strings and numbers\<close>

text \<open>
  A JavaScript string is a sequence of UTF-16 code units; \<open>length\<close> counts code units and
  \<open>charCodeAt\<close> reads one of them.
\<close>

type_synonym jstring = "16 word list"

definition ascii :: "string \<Rightarrow> jstring" where
  "ascii s = map of_char s"

text \<open>
  \<open>ToInt32\<close>, which \<open>x | 0\<close> and the operands of \<open>\<lless>\<close> go through: the value is
  wrapped into the signed 32-bit range.
\<close>

definition to_int32 :: "int \<Rightarrow> int" where
  "to_int32 x = (x + 2147483648) mod 4294967296 - 2147483648"

section \<open>Transport addressing (daemon.ts)\<close>

text \<open>
  The body of the loop of \<open>getPortForSession\<close>:
  \<^verbatim>\<open>hash = (hash << 5) - hash + session.charCodeAt(i); hash |= 0;\<close>
  The shift yields a 32-bit integer, the subtraction and addition are exact on numbers of this
  size, and \<open>|= 0\<close> wraps the sum.
\<close>

definition hash_step :: "int \<Rightarrow> 16 word \<Rightarrow> int" where
  "hash_step hash c = to_int32 (to_int32 (hash * 32) - hash + uint c)"

fun hash_loop :: "int \<Rightarrow> jstring \<Rightarrow> int" where
  "hash_loop hash [] = hash"
| "hash_loop hash (c # cs) = hash_loop (hash_step hash c) cs"

definition sessionHash :: "jstring \<Rightarrow> int" where
  "sessionHash session = hash_loop 0 session"

definition getPortForSession :: "jstring \<Rightarrow> int" where
  "getPortForSession session = 49152 + \<bar>sessionHash session\<bar> mod 16383"

section \<open>String operations used by the daemon\<close>

text \<open>
  The code units that \<open>trimStart\<close>, \<open>trim\<close> and the regular expression class
  \<open>\s\<close> treat as white space: the WhiteSpace and LineTerminator code points of
  the language.
\<close>

definition is_js_space :: "16 word \<Rightarrow> bool" where
  "is_js_space c \<longleftrightarrow>
     c = 0x09 \<or> c = 0x0A \<or> c = 0x0B \<or> c = 0x0C \<or> c = 0x0D \<or> c = 0x20 \<or> c = 0xA0
     \<or> c = 0x1680 \<or> (0x2000 \<le> c \<and> c \<le> 0x200A) \<or> c = 0x2028 \<or> c = 0x2029
     \<or> c = 0x202F \<or> c = 0x205F \<or> c = 0x3000 \<or> c = 0xFEFF"

definition trimStart :: "jstring \<Rightarrow> jstring" where
  "trimStart s = dropWhile is_js_space s"

definition trim :: "jstring \<Rightarrow> jstring" where
  "trim s = rev (dropWhile is_js_space (rev (dropWhile is_js_space s)))"

definition startsWith :: "jstring \<Rightarrow> jstring \<Rightarrow> bool" where
  "startsWith s p \<longleftrightarrow> take (length p) s = p"

text \<open>
  Matching under the flag \<open>i\<close> (without \<open>u\<close>) compares canonicalised code units:
  a code unit is replaced by its upper case, except that a unit outside ASCII is never mapped
  into ASCII. Against a pattern of ASCII capitals only the ASCII letters are therefore
  affected, and only their mapping is written out here.
\<close>

definition canonicalize :: "16 word \<Rightarrow> 16 word" where
  "canonicalize c = (if 0x61 \<le> c \<and> c \<le> 0x7A then c - 0x20 else c)"

definition http_methods :: "jstring list" where
  "http_methods = map ascii
     [''GET'', ''POST'', ''PUT'', ''DELETE'', ''HEAD'', ''OPTIONS'', ''PATCH'', ''CONNECT'',
      ''TRACE'']"

text \<open>
  \<^verbatim>\<open>/^(GET|POST|PUT|DELETE|HEAD|OPTIONS|PATCH|CONNECT|TRACE)\s/i.test(s)\<close>:
  some method keyword, in any letter case, stands at the start of \<open>s\<close> and a white space
  unit follows it.
\<close>

definition matches_method :: "jstring \<Rightarrow> jstring \<Rightarrow> bool" where
  "matches_method s m \<longleftrightarrow>
     length m < length s \<and> map canonicalize (take (length m) s) = m
     \<and> is_js_space (s ! length m)"

definition is_http_request :: "jstring \<Rightarrow> bool" where
  "is_http_request s = list_ex (matches_method s) http_methods"

text \<open>
  \<open>buffer.indexOf('\n')\<close> with the two \<open>substring\<close> calls of the read loop: the
  text before the first line feed and the text after it, when there is a line feed.
\<close>

definition newline :: "16 word" where
  "newline = 0x0A"

definition split_line :: "jstring \<Rightarrow> (jstring \<times> jstring) option" where
  "split_line buffer =
     (if newline \<in> set buffer
      then Some (takeWhile (\<lambda>c. c \<noteq> newline) buffer,
                 tl (dropWhile (\<lambda>c. c \<noteq> newline) buffer))
      else None)"

section \<open>Decoding received bytes\<close>

text \<open>
  The data handler receives a byte buffer and calls \<open>data.toString()\<close>, which decodes
  the bytes as UTF-8 into a string. The decoder is the platform's; it is written out here
  after the UTF-8 decoding algorithm of the Encoding Standard: a well-formed sequence of one
  to four bytes gives one code point (two code units above the basic plane), and an
  ill-formed or truncated sequence gives U+FFFD.
\<close>

definition code_point_units :: "nat \<Rightarrow> jstring" where
  "code_point_units cp =
     (if cp < 0x10000 then [of_nat cp]
      else [of_nat (0xD800 + (cp - 0x10000) div 0x400),
            of_nat (0xDC00 + (cp - 0x10000) mod 0x400)])"

definition in_range :: "nat \<Rightarrow> nat \<Rightarrow> 8 word \<Rightarrow> bool" where
  "in_range lo hi b \<longleftrightarrow> lo \<le> unat b \<and> unat b \<le> hi"

definition replacement :: "16 word" where
  "replacement = 0xFFFD"

text \<open>
  One step of the decoder on the lead byte \<open>b\<close> and the bytes \<open>bs\<close> after it: the
  code units it emits and the bytes that remain. After an ill-formed sequence the byte
  that broke it is read again.
\<close>

definition decode_step :: "8 word \<Rightarrow> 8 word list \<Rightarrow> jstring \<times> 8 word list" where
  "decode_step b bs =
     (if unat b < 0x80 then ([ucast b], bs)
      else if in_range 0xC2 0xDF b then
        (case bs of
           [] \<Rightarrow> ([replacement], [])
         | c1 # r1 \<Rightarrow>
             if in_range 0x80 0xBF c1
             then (code_point_units ((unat b - 0xC0) * 0x40 + (unat c1 - 0x80)), r1)
             else ([replacement], bs))
      else if in_range 0xE0 0xEF b then
        (case bs of
           [] \<Rightarrow> ([replacement], [])
         | c1 # r1 \<Rightarrow>
             if in_range (if unat b = 0xE0 then 0xA0 else 0x80)
                         (if unat b = 0xED then 0x9F else 0xBF) c1
             then (case r1 of
                     [] \<Rightarrow> ([replacement], [])
                   | c2 # r2 \<Rightarrow>
                       if in_range 0x80 0xBF c2
                       then (code_point_units
                               ((unat b - 0xE0) * 0x1000 + (unat c1 - 0x80) * 0x40
                                + (unat c2 - 0x80)), r2)
                       else ([replacement], r1))
             else ([replacement], bs))
      else if in_range 0xF0 0xF4 b then
        (case bs of
           [] \<Rightarrow> ([replacement], [])
         | c1 # r1 \<Rightarrow>
             if in_range (if unat b = 0xF0 then 0x90 else 0x80)
                         (if unat b = 0xF4 then 0x8F else 0xBF) c1
             then (case r1 of
                     [] \<Rightarrow> ([replacement], [])
                   | c2 # r2 \<Rightarrow>
                       if in_range 0x80 0xBF c2
                       then (case r2 of
                               [] \<Rightarrow> ([replacement], [])
                             | c3 # r3 \<Rightarrow>
                                 if in_range 0x80 0xBF c3
                                 then (code_point_units
                                         ((unat b - 0xF0) * 0x40000 + (unat c1 - 0x80) * 0x1000
                                          + (unat c2 - 0x80) * 0x40 + (unat c3 - 0x80)), r3)
                                 else ([replacement], r2))
                       else ([replacement], r1))
             else ([replacement], bs))
      else ([replacement], bs))"

lemma decode_step_consumes:
  "decode_step b bs = (units, rest) \<Longrightarrow>
   length rest \<le> length bs \<and> length units + length rest \<le> Suc (length bs)"
  unfolding decode_step_def code_point_units_def
  by (auto split: if_splits list.splits)

lemma decode_step_rest:
  "(units, rest) = decode_step b bs \<Longrightarrow> length rest < Suc (length bs)"
  using decode_step_consumes [of b bs units rest] by simp

function utf8_decode :: "8 word list \<Rightarrow> jstring" where
  "utf8_decode [] = []"
| "utf8_decode (b # bs) = (case decode_step b bs of (units, rest) \<Rightarrow> units @ utf8_decode rest)"
  by pat_completeness auto
termination
  by (relation "measure length") (auto dest: decode_step_rest)

definition toString :: "8 word list \<Rightarrow> jstring" where
  "toString data = utf8_decode data"

section \<open>Session registry (daemon.ts)\<close>

text \<open>
  What the module reads from its platform: the operating system flag, the environment
  variables and directories that \<open>getAppDir\<close> and \<open>getSocketDir\<close> consult, and
  \<open>join\<close> of \<open>node:path\<close>, which is taken as it is.
\<close>

record config =
  isWindows :: bool
  env_socket_dir :: "jstring option"
  env_xdg_runtime_dir :: "jstring option"
  homedir :: jstring
  tmpdir :: jstring
  join :: "jstring \<Rightarrow> jstring \<Rightarrow> jstring"

text \<open>
  An optional string is used when it is present and not the empty string; an absent one is
  read here as the empty string, which fails the same test.
\<close>

definition or_empty :: "jstring option \<Rightarrow> jstring" where
  "or_empty v = (case v of None \<Rightarrow> [] | Some s \<Rightarrow> s)"

definition getAppDir :: "config \<Rightarrow> jstring" where
  "getAppDir cfg =
     (if or_empty (env_xdg_runtime_dir cfg) \<noteq> []
      then join cfg (or_empty (env_xdg_runtime_dir cfg)) (ascii ''agent-browser'')
      else if homedir cfg \<noteq> [] then join cfg (homedir cfg) (ascii ''.agent-browser'')
      else join cfg (tmpdir cfg) (ascii ''agent-browser''))"

definition getSocketDir :: "config \<Rightarrow> jstring" where
  "getSocketDir cfg =
     (if or_empty (env_socket_dir cfg) \<noteq> [] then or_empty (env_socket_dir cfg)
      else getAppDir cfg)"

text \<open>\<open>String(n)\<close> for a natural number: its decimal digits.\<close>

fun decimal :: "nat \<Rightarrow> jstring" where
  "decimal n =
     (if n < 10 then [of_nat (48 + n)] else decimal (n div 10) @ [of_nat (48 + n mod 10)])"

text \<open>
  An entry of the runtime directory is a regular file with its text, as the daemon writes
  its PID, port and stream port files, or a socket, as binding the listener leaves it.
  \<open>Bun.file(path).exists()\<close> is true for a regular file and false for a socket.
\<close>

datatype entry = Regular jstring | Socket

text \<open>
  A number as \<open>parseInt\<close> returns it: not a number, an integer that the digits give
  exactly (up to 2 to the power 53 in magnitude), or a larger value, which is a rounded
  double and not kept here.
\<close>

datatype js_number = NaN | Exact int | Rounded

text \<open>
  The state the registry works on: the entries of the runtime directory, the paths whose
  deletion fails (\<open>delete\<close> raises there), the numbers for which the probe
  \<open>process.kill(pid, 0)\<close> returns without raising, the module's current session and
  its set of sessions being cleaned up.
\<close>

record world =
  files :: "jstring \<Rightarrow> entry option"
  locked :: "jstring set"
  probe_ok :: "js_number \<Rightarrow> bool"
  currentSession :: jstring
  cleaningUp :: "jstring set"

definition is_regular :: "entry option \<Rightarrow> bool" where
  "is_regular e = (case e of Some (Regular text) \<Rightarrow> True | _ \<Rightarrow> False)"

definition exists_file :: "'a world_scheme \<Rightarrow> jstring \<Rightarrow> bool" where
  "exists_file w path = is_regular (files w path)"

text \<open>\<open>session ?? currentSession\<close>\<close>

definition session_or_current :: "'a world_scheme \<Rightarrow> jstring option \<Rightarrow> jstring" where
  "session_or_current w session = (case session of Some s \<Rightarrow> s | None \<Rightarrow> currentSession w)"

definition getSocketAddress :: "config \<Rightarrow> 'a world_scheme \<Rightarrow> jstring option \<Rightarrow> jstring" where
  "getSocketAddress cfg w session =
     (let sess = session_or_current w session in
      if isWindows cfg then decimal (nat (getPortForSession sess))
      else join cfg (getSocketDir cfg) (sess @ ascii ''.sock''))"

definition getPortFile :: "config \<Rightarrow> 'a world_scheme \<Rightarrow> jstring option \<Rightarrow> jstring" where
  "getPortFile cfg w session =
     join cfg (getSocketDir cfg) (session_or_current w session @ ascii ''.port'')"

definition getPidFile :: "config \<Rightarrow> 'a world_scheme \<Rightarrow> jstring option \<Rightarrow> jstring" where
  "getPidFile cfg w session =
     join cfg (getSocketDir cfg) (session_or_current w session @ ascii ''.pid'')"

definition getStreamPortFile :: "config \<Rightarrow> 'a world_scheme \<Rightarrow> jstring option \<Rightarrow> jstring" where
  "getStreamPortFile cfg w session =
     join cfg (getSocketDir cfg) (session_or_current w session @ ascii ''.stream'')"

text \<open>
  \<^verbatim>\<open>if (await f.exists()) await f.delete();\<close> Nothing is deleted where
  \<open>exists()\<close> is false: at a path with no entry, and at a socket. The result is
  \<open>None\<close> when the deletion raises.
\<close>

definition delete_if_exists :: "jstring \<Rightarrow> 'a world_scheme \<Rightarrow> 'a world_scheme option" where
  "delete_if_exists path w =
     (if \<not> exists_file w path then Some w
      else if path \<in> locked w then None
      else Some (w\<lparr>files := (files w)(path := None)\<rparr>))"

text \<open>
  \<open>cleanupSocket\<close>: nothing happens for a session that is already being cleaned up.
  Otherwise the three deletions run in order inside one \<open>try\<close>, so that the first one
  that raises ends them, and the session leaves the set again in any case.
\<close>

definition cleanup_files :: "config \<Rightarrow> jstring option \<Rightarrow> 'a world_scheme \<Rightarrow> 'a world_scheme" where
  "cleanup_files cfg session w =
     (case delete_if_exists (getPidFile cfg w session) w of
        None \<Rightarrow> w
      | Some w1 \<Rightarrow>
          (case delete_if_exists (getStreamPortFile cfg w1 session) w1 of
             None \<Rightarrow> w1
           | Some w2 \<Rightarrow>
               (case delete_if_exists
                       (if isWindows cfg then getPortFile cfg w2 session
                        else getSocketAddress cfg w2 session) w2 of
                  None \<Rightarrow> w2
                | Some w3 \<Rightarrow> w3)))"

definition cleanupSocket :: "config \<Rightarrow> jstring option \<Rightarrow> 'a world_scheme \<Rightarrow> 'a world_scheme" where
  "cleanupSocket cfg session w =
     (let sess = session_or_current w session in
      if sess \<in> cleaningUp w then w
      else
        (let w1 = cleanup_files cfg session (w\<lparr>cleaningUp := insert sess (cleaningUp w)\<rparr>)
         in w1\<lparr>cleaningUp := cleaningUp w1 - {sess}\<rparr>))"

text \<open>
  \<open>parseInt(text, 10)\<close>: leading white space and one sign are skipped and the longest
  run of decimal digits is read; without a digit the result is not a number.
\<close>

definition is_digit :: "16 word \<Rightarrow> bool" where
  "is_digit c \<longleftrightarrow> 0x30 \<le> c \<and> c \<le> 0x39"

definition digits_value :: "jstring \<Rightarrow> int" where
  "digits_value ds = foldl (\<lambda>acc c. 10 * acc + (uint c - 48)) 0 ds"

definition parseInt10 :: "jstring \<Rightarrow> js_number" where
  "parseInt10 s =
     (let t = trimStart s;
          negative = (t \<noteq> [] \<and> hd t = 0x2D);
          body = (if t \<noteq> [] \<and> (hd t = 0x2D \<or> hd t = 0x2B) then tl t else t);
          ds = takeWhile is_digit body
      in if ds = [] then NaN
         else if digits_value ds \<le> 9007199254740992
         then Exact (if negative then - digits_value ds else digits_value ds)
         else Rounded)"

text \<open>
  \<open>process.kill(pid, 0)\<close> sends nothing and raises when the process cannot be probed.
  Whether the call returns for a given number is the platform's answer.
\<close>

definition probe :: "'a world_scheme \<Rightarrow> js_number \<Rightarrow> bool" where
  "probe w pid = probe_ok w pid"

text \<open>
  \<open>isDaemonRunning\<close>: without a PID file that \<open>exists()\<close> sees the answer is
  false; otherwise the text of the file is parsed and the process probed, and a failed
  probe leads to the cleanup.
\<close>

definition isDaemonRunning ::
  "config \<Rightarrow> jstring option \<Rightarrow> 'a world_scheme \<Rightarrow> bool \<times> 'a world_scheme" where
  "isDaemonRunning cfg session w =
     (case files w (getPidFile cfg w session) of
        Some (Regular text) \<Rightarrow>
          if probe w (parseInt10 (trim text)) then (True, w)
          else (False, cleanupSocket cfg session w)
      | _ \<Rightarrow> (False, w))"

section \<open>The automation engine at its interface\<close>

text \<open>
  Modelled from the spec: the class \<open>BrowserManager\<close> (browser.js) is not among the
  sources. The spec treats the engine as an opaque capability; the record keeps what the
  daemon and the Stream Server observe of it: whether it is launched, whether \<open>close\<close>
  was called, the current page with its viewport (no page: \<open>getPage\<close> raises; a page
  whose \<open>viewportSize()\<close> is null has no size), whether the capture pipeline runs, how
  often it was started and stopped, and the input events injected so far.
\<close>

datatype input_event = MouseEvent jstring | KeyboardEvent jstring | TouchEvent jstring

record browser_manager =
  launched :: bool
  closed :: bool
  page :: "(int \<times> int) option option"
  capturing :: bool
  capture_starts :: nat
  capture_stops :: nat
  injected :: "input_event list"

text \<open>
  Whether a call into the engine raises is decided outside this program: for each of the
  calls that the Stream Server makes, the message of the error it raises, if any.
\<close>

record engine =
  start_error :: "jstring option"
  stop_error :: "jstring option"
  inject_error :: "input_event \<Rightarrow> jstring option"

definition isLaunched :: "browser_manager \<Rightarrow> bool" where
  "isLaunched b = launched b"

definition close_browser :: "browser_manager \<Rightarrow> browser_manager" where
  "close_browser b = b\<lparr>launched := False, closed := True, page := None, capturing := False\<rparr>"

section \<open>Stream Server (stream-server.ts)\<close>

datatype stream_message =
    StatusMessage bool bool "(int \<times> int) option"
  | ErrorMessage jstring
  | FrameMessage jstring

text \<open>
  What \<open>JSON.parse(data.toString())\<close> and the \<open>switch\<close> on \<open>message.type\<close> make of
  an inbound message: the parser raises; the text parses to \<open>null\<close>, so that reading
  \<open>message.type\<close> raises; one of the four message types, with the fields of an input
  message kept as they came; or any other value, for which no case is taken.
\<close>

datatype inbound =
    SyntaxError jstring
  | NullValue jstring
  | InputMouse jstring
  | InputKeyboard jstring
  | InputTouch jstring
  | StatusRequest
  | OtherValue

type_synonym ws = nat

text \<open>
  The fields of the class, with the state of the underlying server that its methods use:
  the subscribers of the two topics, the viewers whose connection is open, and the messages
  each viewer has been sent, in order.
\<close>

record stream_server =
  server :: bool
  port :: nat
  isScreencasting :: bool
  clientCount :: int
  frameCallback :: bool
  screencast_subs :: "ws set"
  status_subs :: "ws set"
  connections :: "ws set"
  received :: "ws \<Rightarrow> stream_message list"

text \<open>
  The Stream Server holds the browser object that the daemon constructed, so its methods
  work on the pair of its own fields and that object.
\<close>

type_synonym stream_state = "stream_server \<times> browser_manager"

definition new_stream_server :: "nat \<Rightarrow> stream_server" where
  "new_stream_server p =
     \<lparr>server = False, port = p, isScreencasting = False, clientCount = 0,
      frameCallback = False, screencast_subs = {}, status_subs = {}, connections = {},
      received = (\<lambda>_. [])\<rparr>"

definition send :: "ws \<Rightarrow> stream_message \<Rightarrow> stream_server \<Rightarrow> stream_server" where
  "send w m s = s\<lparr>received := (received s)(w := received s w @ [m])\<rparr>"

definition publish :: "ws set \<Rightarrow> stream_message \<Rightarrow> stream_server \<Rightarrow> stream_server" where
  "publish subs m s =
     s\<lparr>received := (\<lambda>w. if w \<in> subs then received s w @ [m] else received s w)\<rparr>"

definition statusMessage :: "stream_server \<Rightarrow> browser_manager \<Rightarrow> stream_message option" where
  "statusMessage s b =
     (case page b of
        None \<Rightarrow> None
      | Some viewport \<Rightarrow> Some (StatusMessage True (isScreencasting s) viewport))"

definition sendStatus :: "ws \<Rightarrow> stream_server \<Rightarrow> browser_manager \<Rightarrow> stream_server" where
  "sendStatus w s b = (case statusMessage s b of None \<Rightarrow> s | Some m \<Rightarrow> send w m s)"

definition broadcastStatus :: "stream_server \<Rightarrow> browser_manager \<Rightarrow> stream_server" where
  "broadcastStatus s b =
     (if \<not> server s then s
      else (case statusMessage s b of None \<Rightarrow> s | Some m \<Rightarrow> publish (status_subs s) m s))"

definition broadcastFrame :: "jstring \<Rightarrow> stream_server \<Rightarrow> stream_server" where
  "broadcastFrame frame s =
     (if \<not> server s then s else publish (screencast_subs s) (FrameMessage frame) s)"

definition sendError :: "ws \<Rightarrow> jstring \<Rightarrow> stream_server \<Rightarrow> stream_server" where
  "sendError w errorMessage s = send w (ErrorMessage errorMessage) s"

text \<open>
  \<open>startScreencast\<close> and \<open>stopScreencast\<close> return the message of the error they raise,
  if any, with the state they leave. Like every handler here they are modelled as running
  to their end without another handler in between.
\<close>

definition startScreencast ::
  "engine \<Rightarrow> stream_state \<Rightarrow> jstring option \<times> stream_state" where
  "startScreencast eng sb =
     (let s = fst sb; b = snd sb in
      if isScreencasting s then (None, s, b)
      else
        (let s1 = s\<lparr>isScreencasting := True\<rparr> in
         if \<not> isLaunched b
         then (Some (ascii ''Browser not launched''), s1\<lparr>isScreencasting := False\<rparr>, b)
         else
           (case start_error eng of
              Some e \<Rightarrow> (Some e, s1\<lparr>isScreencasting := False\<rparr>, b)
            | None \<Rightarrow>
                (let b1 = b\<lparr>capturing := True, capture_starts := capture_starts b + 1\<rparr>
                 in (None, broadcastStatus s1 b1, b1)))))"

definition stopScreencast ::
  "engine \<Rightarrow> stream_state \<Rightarrow> jstring option \<times> stream_state" where
  "stopScreencast eng sb =
     (let s = fst sb; b = snd sb in
      if \<not> isScreencasting s then (None, s, b)
      else
        (case stop_error eng of
           Some e \<Rightarrow> (Some e, s, b)
         | None \<Rightarrow>
             (let b1 = b\<lparr>capturing := False, capture_stops := capture_stops b + 1\<rparr>;
                  s1 = s\<lparr>isScreencasting := False\<rparr>
              in (None, broadcastStatus s1 b1, b1))))"

definition handleOpen :: "engine \<Rightarrow> ws \<Rightarrow> stream_state \<Rightarrow> stream_state" where
  "handleOpen eng w sb =
     (let s = fst sb; b = snd sb;
          s1 = s\<lparr>clientCount := clientCount s + 1,
                 screencast_subs := insert w (screencast_subs s),
                 status_subs := insert w (status_subs s)\<rparr>;
          s2 = sendStatus w s1 b
      in if clientCount s2 = 1 \<and> \<not> isScreencasting s2
         then (case startScreencast eng (s2, b) of
                 (Some e, s3, b3) \<Rightarrow> (sendError w e s3, b3)
               | (None, s3, b3) \<Rightarrow> (s3, b3))
         else (s2, b))"

definition handleClose :: "engine \<Rightarrow> ws \<Rightarrow> stream_state \<Rightarrow> stream_state" where
  "handleClose eng w sb =
     (let s = fst sb; b = snd sb;
          s1 = s\<lparr>screencast_subs := screencast_subs s - {w},
                 status_subs := status_subs s - {w},
                 clientCount := clientCount s - 1\<rparr>
      in if clientCount s1 = 0 \<and> isScreencasting s1
         then (case stopScreencast eng (s1, b) of (_, s2, b2) \<Rightarrow> (s2, b2))
         else (s1, b))"

text \<open>
  The body of the \<open>try\<close> in \<open>handleMessage\<close>: \<open>Inl\<close> carries the message of the error
  raised, by the parser, by reading a field of \<open>null\<close> or by the engine's injection call.
\<close>

definition inject ::
  "engine \<Rightarrow> input_event \<Rightarrow> stream_state \<Rightarrow> jstring + stream_state" where
  "inject eng ev sb =
     (case inject_error eng ev of
        Some e \<Rightarrow> Inl e
      | None \<Rightarrow> Inr (fst sb, (snd sb)\<lparr>injected := injected (snd sb) @ [ev]\<rparr>))"

fun handle_body ::
  "engine \<Rightarrow> ws \<Rightarrow> inbound \<Rightarrow> stream_state \<Rightarrow> jstring + stream_state" where
  "handle_body eng w (SyntaxError e) sb = Inl e"
| "handle_body eng w (NullValue e) sb = Inl e"
| "handle_body eng w (InputMouse ev) sb = inject eng (MouseEvent ev) sb"
| "handle_body eng w (InputKeyboard ev) sb = inject eng (KeyboardEvent ev) sb"
| "handle_body eng w (InputTouch ev) sb = inject eng (TouchEvent ev) sb"
| "handle_body eng w StatusRequest sb = Inr (sendStatus w (fst sb) (snd sb), snd sb)"
| "handle_body eng w OtherValue sb = Inr sb"

definition handleMessage ::
  "engine \<Rightarrow> ws \<Rightarrow> inbound \<Rightarrow> stream_state \<Rightarrow> stream_state" where
  "handleMessage eng w data sb =
     (case handle_body eng w data sb of
        Inl errorMessage \<Rightarrow> (sendError w errorMessage (fst sb), snd sb)
      | Inr sb' \<Rightarrow> sb')"

text \<open>
  The \<open>websocket\<close> handlers of \<open>start\<close>: the underlying server has opened or
  closed the viewer's connection and calls the method.
\<close>

definition websocket_open :: "engine \<Rightarrow> ws \<Rightarrow> stream_state \<Rightarrow> stream_state" where
  "websocket_open eng w sb =
     handleOpen eng w ((fst sb)\<lparr>connections := insert w (connections (fst sb))\<rparr>, snd sb)"

definition websocket_close :: "engine \<Rightarrow> ws \<Rightarrow> stream_state \<Rightarrow> stream_state" where
  "websocket_close eng w sb =
     handleClose eng w ((fst sb)\<lparr>connections := connections (fst sb) - {w}\<rparr>, snd sb)"

text \<open>
  The \<open>fetch\<close> handler of \<open>start\<close>: the value of the request's \<open>origin\<close> header, if
  there is one, and whether \<open>server.upgrade\<close> succeeds.
\<close>

datatype fetch_result = Forbidden403 | Upgraded | UpgradeFailed400

definition fetch :: "jstring option \<Rightarrow> bool \<Rightarrow> fetch_result" where
  "fetch origin upgrade_ok =
     (if or_empty origin \<noteq> [] \<and> \<not> startsWith (or_empty origin) (ascii ''file://'')
      then Forbidden403
      else if upgrade_ok then Upgraded else UpgradeFailed400)"

text \<open>\<open>start\<close> binds the listener and installs the frame callback.\<close>

definition start_server :: "stream_server \<Rightarrow> stream_server" where
  "start_server s = s\<lparr>server := True, frameCallback := True\<rparr>"


section \<open>Command daemon (daemon.ts)\<close>

text \<open>
  The handlers of the daemon are asynchronous functions on one thread. Each is modelled as
  running from its call to its end: what another handler could do while this one waits at
  an \<open>await\<close> is outside the model.
\<close>

text \<open>
  A command carries its identifier and its action; the remaining parameters are kept as
  they came. Of the closed set of actions the daemon tells apart \<open>launch\<close> and
  \<open>close\<close>.
\<close>

datatype action = Launch | Close | OtherAction jstring

record command =
  cmd_id :: jstring
  action :: action
  params :: jstring

datatype response = OkResponse jstring jstring | ErrResponse jstring jstring

text \<open>
  The result of \<open>parseCommand\<close>: a command, or a failure with the identifier, if one
  could be recovered, and the error text. The call stands inside the \<open>try\<close> of the read
  loop, so an error raised by it is a third outcome.
\<close>

datatype parse_result =
    ParseSuccess command
  | ParseFailure "jstring option" jstring
  | ParseRaises jstring

text \<open>
  Modelled from the spec: \<open>errorResponse\<close> (protocol.js) is not among the sources; it
  constructs the failure response for an identifier and a message.
\<close>

definition errorResponse :: "jstring \<Rightarrow> jstring \<Rightarrow> response" where
  "errorResponse i message = ErrResponse i message"

text \<open>
  The other functions that the read loop calls and that are not among the sources are
  parameters of the model: \<open>parseCommand\<close> and \<open>serializeResponse\<close> (protocol.js),
  \<open>executeCommand\<close> (actions.js) and \<open>browser.launch\<close> with the options that the
  daemon reads from the environment (browser.js). The last two return the message of the
  error they raise, if any, with the browser they leave.
\<close>

record deps =
  parseCommand :: "jstring \<Rightarrow> parse_result"
  serializeResponse :: "response \<Rightarrow> jstring"
  executeCommand :: "command \<Rightarrow> browser_manager \<Rightarrow> (jstring + response) \<times> browser_manager"
  launch :: "browser_manager \<Rightarrow> jstring option \<times> browser_manager"

definition MAX_BUFFER_SIZE :: nat where
  "MAX_BUFFER_SIZE = 1024 * 1024 * 4"

text \<open>
  A connection: the two fields of \<open>SocketData\<close>, what has been written to the socket, one
  entry for each call of \<open>socket.write\<close>, and whether \<open>socket.terminate()\<close> was called.
\<close>

record socket =
  chunks :: "jstring list"
  httpChecked :: bool
  written :: "jstring list"
  terminated :: bool

definition open_socket :: socket where
  "open_socket = \<lparr>chunks = [], httpChecked = False, written = [], terminated = False\<rparr>"

text \<open>
  The state of the daemon process: the registry's state, the browser object, the flag
  \<open>shuttingDown\<close>, the module variable \<open>streamServer\<close> (whether it refers to a Stream
  Server, and the object itself, which outlives the variable), whether the command listener
  accepts connections, whether the timer of the \<open>close\<close> command is set, and the exit code
  once \<open>process.exit\<close> was called. Two logs record the lines handed to \<open>parseCommand\<close>
  and the commands handed to \<open>executeCommand\<close>.
\<close>

record daemon = world +
  browser :: browser_manager
  shuttingDown :: bool
  streamServer :: bool
  stream_object :: stream_server
  listening :: bool
  closeTimer :: bool
  exit_code :: "int option"
  parse_log :: "jstring list"
  exec_log :: "command list"

definition write_response :: "deps \<Rightarrow> response \<Rightarrow> jstring list \<Rightarrow> jstring list" where
  "write_response ds resp out = out @ [serializeResponse ds resp @ [newline]]"

text \<open>
  The lazy launch before a command: \<open>Inl\<close> carries the message of the error that
  \<open>browser.launch\<close> raised.
\<close>

definition auto_launch :: "deps \<Rightarrow> command \<Rightarrow> daemon \<Rightarrow> jstring \<times> daemon + daemon" where
  "auto_launch ds cmd d =
     (if \<not> isLaunched (browser d) \<and> action cmd \<noteq> Launch \<and> action cmd \<noteq> Close
      then (case launch ds (browser d) of
              (Some e, b) \<Rightarrow> Inl (e, d\<lparr>browser := b\<rparr>)
            | (None, b) \<Rightarrow> Inr (d\<lparr>browser := b\<rparr>))
      else Inr d)"

text \<open>
  The body of the read loop for one line that is not blank. The flag of the result says
  whether the handler returns (the \<open>return\<close> after a \<open>close\<close> command); otherwise the
  loop goes on with the next line.
\<close>

definition run_command ::
  "deps \<Rightarrow> command \<Rightarrow> jstring list \<times> daemon \<Rightarrow> bool \<times> jstring list \<times> daemon" where
  "run_command ds cmd st =
     (let out = fst st; d = snd st in
      case executeCommand ds cmd (browser d) of
        (Inl e, b) \<Rightarrow>
          (False, write_response ds (errorResponse (ascii ''error'') e) out,
           d\<lparr>browser := b, exec_log := exec_log d @ [cmd]\<rparr>)
      | (Inr resp, b) \<Rightarrow>
          (let d1 = d\<lparr>browser := b, exec_log := exec_log d @ [cmd]\<rparr>;
               out1 = write_response ds resp out
           in if action cmd = Close
              then (True, out1,
                    if \<not> shuttingDown d1 then d1\<lparr>shuttingDown := True, closeTimer := True\<rparr>
                    else d1)
              else (False, out1, d1)))"

definition process_line ::
  "deps \<Rightarrow> jstring \<Rightarrow> jstring list \<times> daemon \<Rightarrow> bool \<times> jstring list \<times> daemon" where
  "process_line ds line st =
     (let out = fst st; d = (snd st)\<lparr>parse_log := parse_log (snd st) @ [line]\<rparr> in
      case parseCommand ds line of
        ParseRaises e \<Rightarrow> (False, write_response ds (errorResponse (ascii ''error'') e) out, d)
      | ParseFailure i e \<Rightarrow>
          (False,
           write_response ds
             (errorResponse (case i of Some v \<Rightarrow> v | None \<Rightarrow> ascii ''unknown'') e) out,
           d)
      | ParseSuccess cmd \<Rightarrow>
          (case auto_launch ds cmd d of
             Inl (e, d1) \<Rightarrow>
               (False, write_response ds (errorResponse (ascii ''error'') e) out, d1)
           | Inr d1 \<Rightarrow> run_command ds cmd (out, d1)))"

text \<open>
  \<^verbatim>\<open>while (buffer.includes('\n')) { ... }\<close>: the loop ends with the rest of the buffer
  after the last complete line, or with the handler's return.
\<close>

datatype loop_exit = Finished jstring | Returned

lemma split_line_shorter:
  "split_line buffer = Some (line, rest) \<Longrightarrow> length rest < length buffer"
proof -
  assume a: "split_line buffer = Some (line, rest)"
  then have r: "rest = tl (dropWhile (\<lambda>c. c \<noteq> newline) buffer)"
    and n: "newline \<in> set buffer"
    by (auto simp: split_line_def split: if_splits)
  from n have ne: "dropWhile (\<lambda>c. c \<noteq> newline) buffer \<noteq> []"
    by (simp add: dropWhile_eq_Nil_conv)
  have "length (dropWhile (\<lambda>c. c \<noteq> newline) buffer) \<le> length buffer"
    by (rule length_dropWhile_le)
  with ne r show ?thesis
    by (cases "dropWhile (\<lambda>c. c \<noteq> newline) buffer") auto
qed

function line_loop ::
  "deps \<Rightarrow> jstring \<Rightarrow> jstring list \<times> daemon \<Rightarrow> loop_exit \<times> jstring list \<times> daemon" where
  "line_loop ds buffer st =
     (case split_line buffer of
        None \<Rightarrow> (Finished buffer, st)
      | Some (line, rest) \<Rightarrow>
          if trim line = [] then line_loop ds rest st
          else (case process_line ds line st of
                  (True, st1) \<Rightarrow> (Returned, st1)
                | (False, st1) \<Rightarrow> line_loop ds rest st1))"
  by pat_completeness auto
termination
  by (relation "measure (\<lambda>(ds, buffer, st). length buffer)")
     (auto simp: split_line_shorter)

declare line_loop.simps [simp del]

text \<open>
  The \<open>data\<close> handler of a connection. The size guard counts the lengths of the buffered
  strings and of the decoded chunk. The check for an HTTP request line runs while
  \<open>httpChecked\<close> is false, on the joined buffer. After the loop the rest of the buffer
  replaces the chunks, unless the handler returned inside the loop.
\<close>

definition socket_data :: "deps \<Rightarrow> 8 word list \<Rightarrow> socket \<times> daemon \<Rightarrow> socket \<times> daemon" where
  "socket_data ds bytes sd =
     (let sock = fst sd; d = snd sd;
          chunk = toString bytes;
          currentSize = sum_list (map length (chunks sock))
      in if currentSize + length chunk > MAX_BUFFER_SIZE
         then (sock\<lparr>terminated := True\<rparr>, d)
         else
           (let sock1 = sock\<lparr>chunks := chunks sock @ [chunk]\<rparr>;
                buffer = concat (chunks sock1)
            in if \<not> httpChecked sock1 \<and> is_http_request (trimStart buffer)
               then (sock1\<lparr>httpChecked := True, terminated := True\<rparr>, d)
               else
                 (case line_loop ds buffer (written sock1, d) of
                    (Returned, out, d1) \<Rightarrow> (sock1\<lparr>httpChecked := True, written := out\<rparr>, d1)
                  | (Finished rest, out, d1) \<Rightarrow>
                      (sock1\<lparr>httpChecked := True, written := out,
                             chunks := (if rest = [] then [] else [rest])\<rparr>, d1))))"

text \<open>
  The timer that a \<open>close\<close> command sets: the listener stops, the session's artifacts are
  cleaned up and the process exits with code 0.
\<close>

definition close_timer :: "config \<Rightarrow> daemon \<Rightarrow> daemon" where
  "close_timer cfg d =
     (cleanupSocket cfg None (d\<lparr>listening := False, closeTimer := False\<rparr>))
       \<lparr>exit_code := Some 0\<rparr>"

subsection \<open>Shutdown\<close>









section \<open>Concrete inputs\<close>

text \<open>
  Instances of the parameters, used where a property is evaluated at a concrete input: a
  Unix configuration, a parser that knows the lines \<open>close\<close> and \<open>launch\<close> and takes
  any line that starts with a brace for another command, an executor that always succeeds,
  and a daemon that listens for the session \<open>default\<close> with its marker files in place.
\<close>

definition example_config :: config where
  "example_config =
     \<lparr>isWindows = False, env_socket_dir = None,
      env_xdg_runtime_dir = Some (ascii ''/run/user/1000''),
      homedir = ascii ''/home/u'', tmpdir = ascii ''/tmp'',
      join = (\<lambda>dir name. dir @ ascii ''/'' @ name)\<rparr>"

definition example_parse :: "jstring \<Rightarrow> parse_result" where
  "example_parse line =
     (if line = ascii ''close''
      then ParseSuccess \<lparr>cmd_id = ascii ''c'', action = Close, params = []\<rparr>
      else if line = ascii ''launch''
      then ParseSuccess \<lparr>cmd_id = ascii ''l'', action = Launch, params = []\<rparr>
      else if startsWith line (ascii ''{'')
      then ParseSuccess \<lparr>cmd_id = ascii ''n'', action = OtherAction line, params = []\<rparr>
      else ParseFailure None (ascii ''Invalid JSON''))"

definition example_serialize :: "response \<Rightarrow> jstring" where
  "example_serialize r =
     (case r of OkResponse i v \<Rightarrow> i @ ascii '' ok'' | ErrResponse i e \<Rightarrow> i @ ascii '' error'')"

definition example_deps :: deps where
  "example_deps =
     \<lparr>parseCommand = example_parse,
      serializeResponse = example_serialize,
      executeCommand =
        (\<lambda>cmd b. (Inr (OkResponse (cmd_id cmd) []),
                   if action cmd = Close then close_browser b else b)),
      launch = (\<lambda>b. (None, b\<lparr>launched := True, page := Some (Some (1280, 720))\<rparr>))\<rparr>"

definition example_engine :: engine where
  "example_engine = \<lparr>start_error = None, stop_error = None, inject_error = (\<lambda>_. None)\<rparr>"

text \<open>An engine whose injection calls raise.\<close>

definition failing_engine :: engine where
  "failing_engine =
     \<lparr>start_error = None, stop_error = None,
      inject_error = (\<lambda>_. Some (ascii ''No page''))\<rparr>"

definition example_browser :: browser_manager where
  "example_browser =
     \<lparr>launched = True, closed = False, page = Some (Some (1280, 720)), capturing = False,
      capture_starts = 0, capture_stops = 0, injected = []\<rparr>"

definition unlaunched_browser :: browser_manager where
  "unlaunched_browser =
     \<lparr>launched = False, closed = False, page = None, capturing = False,
      capture_starts = 0, capture_stops = 0, injected = []\<rparr>"

definition example_files :: "jstring \<Rightarrow> entry option" where
  "example_files =
     [ascii ''/run/user/1000/agent-browser/default.pid'' \<mapsto> Regular (ascii ''4242''),
      ascii ''/run/user/1000/agent-browser/default.stream'' \<mapsto> Regular (ascii ''9223''),
      ascii ''/run/user/1000/agent-browser/default.sock'' \<mapsto> Socket]"

definition example_world :: world where
  "example_world =
     \<lparr>files = example_files, locked = {}, probe_ok = (\<lambda>pid. pid = Exact 1),
      currentSession = ascii ''default'', cleaningUp = {}\<rparr>"

definition example_daemon :: daemon where
  "example_daemon =
     \<lparr>files = example_files, locked = {}, probe_ok = (\<lambda>pid. pid = Exact 4242),
      currentSession = ascii ''default'', cleaningUp = {},
      browser = example_browser, shuttingDown = False, streamServer = True,
      stream_object = start_server (new_stream_server 9223), listening = True,
      closeTimer = False, exit_code = None, parse_log = [], exec_log = []\<rparr>"



text \<open>A Stream Server that listens on port 9223, with the launched browser.\<close>

definition fresh_stream :: stream_state where
  "fresh_stream = (start_server (new_stream_server 9223), example_browser)"

definition ascii_bytes :: "string \<Rightarrow> 8 word list" where
  "ascii_bytes s = map of_char s"

text \<open>
  Received data: an HTTP request line; 2097153 copies of the letter e with acute accent,
  two bytes each in UTF-8; a \<open>close\<close> line followed by another command line; and a
  connection whose buffer already holds 4194304 code units.
\<close>

definition get_request :: "8 word list" where
  "get_request = ascii_bytes ''GET / HTTP/1.1'' @ [0x0D, 0x0A]"

definition accented_chunk :: "8 word list" where
  "accented_chunk = concat (replicate 2097153 [0xC3, 0xA9])"


definition full_socket :: socket where
  "full_socket =
     \<lparr>chunks = [replicate 4194304 0x61], httpChecked = True, written = [],
      terminated = False\<rparr>"

section \<open>Predicates of the statements\<close>


text \<open>
  The marker files of a session, as \<open>cleanupSocket\<close> names them: the PID file, the
  stream port file, and the port file on Windows or the socket file elsewhere.
\<close>

definition marker_files :: "config \<Rightarrow> 'a world_scheme \<Rightarrow> jstring option \<Rightarrow> jstring set" where
  "marker_files cfg w session =
     {getPidFile cfg w session, getStreamPortFile cfg w session,
      if isWindows cfg then getPortFile cfg w session else getSocketAddress cfg w session}"

text \<open>The entries after one deletion that does not fail.\<close>

definition unlink :: "(jstring \<Rightarrow> entry option) \<Rightarrow> jstring \<Rightarrow> jstring \<Rightarrow> entry option" where
  "unlink f path = (\<lambda>p. if p = path \<and> is_regular (f p) then None else f p)"

text \<open>
  The entries after a cleanup in which no deletion fails: the marker files that
  \<open>exists()\<close> sees are gone, and every other entry is as it was.
\<close>

definition cleaned :: "config \<Rightarrow> 'a world_scheme \<Rightarrow> jstring option \<Rightarrow> jstring \<Rightarrow> entry option" where
  "cleaned cfg w session =
     (\<lambda>p. if p \<in> marker_files cfg w session \<and> is_regular (files w p) then None
          else files w p)"

section \<open>Properties\<close>

subsection \<open>Transport addressing\<close>

lemma to_int32_range: "- 2147483648 \<le> to_int32 x \<and> to_int32 x < 2147483648"
proof -
  have "0 \<le> (x + 2147483648) mod 4294967296" by simp
  moreover have "(x + 2147483648) mod 4294967296 < 4294967296" by simp
  ultimately show ?thesis unfolding to_int32_def by linarith
qed

lemma to_int32_cong: "to_int32 (x + 4294967296 * k) = to_int32 x"
proof -
  have "x + 4294967296 * k + 2147483648 = (x + 2147483648) + 4294967296 * k"
    by simp
  then show ?thesis by (simp only: to_int32_def mod_mult_self2)
qed

lemma to_int32_decomp: "\<exists>k. to_int32 x = x + 4294967296 * k"
proof -
  have "(x + 2147483648) mod 4294967296
        = (x + 2147483648) - 4294967296 * ((x + 2147483648) div 4294967296)"
    by (simp add: minus_mult_div_eq_mod)
  then have "to_int32 x = x + 4294967296 * (- ((x + 2147483648) div 4294967296))"
    by (simp add: to_int32_def)
  then show ?thesis by blast
qed

text \<open>The step is the 32-bit polynomial hash \<open>31 * hash + c\<close>, wrapped.\<close>

lemma hash_step_poly: "hash_step h c = to_int32 (31 * h + uint c)"
proof -
  obtain k where k: "to_int32 (h * 32) = h * 32 + 4294967296 * k"
    using to_int32_decomp by blast
  have "to_int32 (h * 32) - h + uint c = (31 * h + uint c) + 4294967296 * k"
    using k by simp
  then show ?thesis
    unfolding hash_step_def by (simp only: to_int32_cong)
qed

lemma hash_loop_range:
  "- 2147483648 \<le> h \<and> h < 2147483648 \<Longrightarrow>
   - 2147483648 \<le> hash_loop h cs \<and> hash_loop h cs < 2147483648"
proof (induction cs arbitrary: h)
  case Nil
  then show ?case by simp
next
  case (Cons c cs)
  have "- 2147483648 \<le> hash_step h c \<and> hash_step h c < 2147483648"
    unfolding hash_step_def by (rule to_int32_range)
  then show ?case using Cons.IH by simp
qed

lemma sessionHash_range:
  "- 2147483648 \<le> sessionHash s \<and> sessionHash s < 2147483648"
  unfolding sessionHash_def by (rule hash_loop_range) simp

text \<open>
  Two names: the hash of the second one is negative, and it is its absolute value that is
  reduced modulo 16383.
\<close>

lemma port_examples:
  "sessionHash (ascii ''default'') = 1544803905
   \<and> getPortForSession (ascii ''default'') = 50838
   \<and> sessionHash (ascii ''defaultdefaultdefault'') = - 357894815
   \<and> getPortForSession (ascii ''defaultdefaultdefault'') = 57332"
  by (simp add: getPortForSession_def sessionHash_def hash_step_def to_int32_def ascii_def)

text \<open>
  Claim C7. The port derived from a session name is 49152 plus the absolute value of the
  session's 32-bit hash modulo 16383. The hash is a signed 32-bit value that depends on the
  name alone (so does the port: the function reads no other state), and every port lies in
  the interval from 49152 inclusive to 49152 + 16383 exclusive.
\<close>

theorem port_for_session_range:
  "getPortForSession s = 49152 + \<bar>sessionHash s\<bar> mod 16383
   \<and> - 2147483648 \<le> sessionHash s \<and> sessionHash s < 2147483648
   \<and> 49152 \<le> getPortForSession s \<and> getPortForSession s < 49152 + 16383"
proof -
  have "0 \<le> \<bar>sessionHash s\<bar> mod 16383" by simp
  moreover have "\<bar>sessionHash s\<bar> mod 16383 < 16383" by simp
  ultimately show ?thesis
    using sessionHash_range [of s] unfolding getPortForSession_def by linarith
qed

subsection \<open>The data handler, branch by branch\<close>

lemma ascii_simps: "ascii [] = []" "ascii (c # cs) = of_char c # ascii cs"
  by (simp_all add: ascii_def)

lemma ascii_bytes_simps:
  "ascii_bytes [] = []" "ascii_bytes (c # cs) = of_char c # ascii_bytes cs"
  by (simp_all add: ascii_bytes_def)

lemma MAX_BUFFER_SIZE_value: "MAX_BUFFER_SIZE = 4194304"
  by (simp add: MAX_BUFFER_SIZE_def)

lemma utf8_decode_length: "length (utf8_decode bs) \<le> length bs"
proof (induction bs rule: utf8_decode.induct)
  case 1
  then show ?case by simp
next
  case (2 b bs)
  obtain units rest where s: "decode_step b bs = (units, rest)"
    by (cases "decode_step b bs")
  from s have c: "length units + length rest \<le> Suc (length bs)"
    using decode_step_consumes by blast
  from 2 s have "length (utf8_decode rest) \<le> length rest" by simp
  with c s show ?case by simp
qed

lemma socket_data_over:
  "sum_list (map length (chunks sock)) + length (toString bytes) > MAX_BUFFER_SIZE \<Longrightarrow>
   socket_data ds bytes (sock, d) = (sock\<lparr>terminated := True\<rparr>, d)"
  by (simp add: socket_data_def Let_def)

lemma socket_data_http:
  "sum_list (map length (chunks sock)) + length (toString bytes) \<le> MAX_BUFFER_SIZE \<Longrightarrow>
   \<not> httpChecked sock \<Longrightarrow>
   is_http_request (trimStart (concat (chunks sock @ [toString bytes]))) \<Longrightarrow>
   socket_data ds bytes (sock, d) =
     (sock\<lparr>chunks := chunks sock @ [toString bytes], httpChecked := True,
            terminated := True\<rparr>, d)"
  by (simp add: socket_data_def Let_def)

lemma socket_data_lines:
  "sum_list (map length (chunks sock)) + length (toString bytes) \<le> MAX_BUFFER_SIZE \<Longrightarrow>
   httpChecked sock
     \<or> \<not> is_http_request (trimStart (concat (chunks sock @ [toString bytes]))) \<Longrightarrow>
   socket_data ds bytes (sock, d) =
     (case line_loop ds (concat (chunks sock @ [toString bytes])) (written sock, d) of
        (Returned, out, d1) \<Rightarrow>
          (sock\<lparr>chunks := chunks sock @ [toString bytes], httpChecked := True,
                 written := out\<rparr>, d1)
      | (Finished rest, out, d1) \<Rightarrow>
          (sock\<lparr>chunks := (if rest = [] then [] else [rest]), httpChecked := True,
                 written := out\<rparr>, d1))"
  by (auto simp: socket_data_def Let_def split: prod.splits loop_exit.splits)

lemma socket_data_lines_terminated:
  assumes "sum_list (map length (chunks sock)) + length (toString bytes) \<le> MAX_BUFFER_SIZE"
    and "httpChecked sock
         \<or> \<not> is_http_request (trimStart (concat (chunks sock @ [toString bytes])))"
  shows "terminated (fst (socket_data ds bytes (sock, d))) = terminated sock"
    and "httpChecked (fst (socket_data ds bytes (sock, d)))"
  by (simp_all add: socket_data_lines [OF assms] split: prod.splits loop_exit.splits)

subsection \<open>The read loop and the close command\<close>







lemma split_line_first:
  "newline \<notin> set line \<Longrightarrow> split_line (line @ [newline] @ rest) = Some (line, rest)"
proof -
  assume a: "newline \<notin> set line"
  then have t: "takeWhile (\<lambda>c. c \<noteq> newline) (line @ newline # rest) = line"
    by (induction line) auto
  from a have d: "dropWhile (\<lambda>c. c \<noteq> newline) (line @ newline # rest) = newline # rest"
    by (induction line) auto
  show ?thesis by (simp add: split_line_def t d)
qed




subsection \<open>The guards of the data handler\<close>

lemma toString_get_request:
  "toString get_request = ascii ''GET / HTTP/1.1'' @ [0x0D, 0x0A]"
  by (simp add: get_request_def toString_def ascii_bytes_simps ascii_simps decode_step_def)

lemma get_request_matches: "is_http_request (trimStart (toString get_request))"
  by (simp add: toString_get_request trimStart_def ascii_simps is_js_space_def
      is_http_request_def http_methods_def matches_method_def canonicalize_def)

text \<open>
  Claim C3. On the first data event of a connection (no chunk buffered, the HTTP check not
  yet made), when the received text, after its leading white space is trimmed, starts with an
  HTTP method keyword followed by white space, the connection is terminated, nothing is
  written to it and the daemon's state is unchanged.
\<close>

theorem http_request_terminated:
  assumes "chunks sock = []" and "\<not> httpChecked sock"
    and "is_http_request (trimStart (toString bytes))"
  shows "terminated (fst (socket_data ds bytes (sock, d)))
         \<and> written (fst (socket_data ds bytes (sock, d))) = written sock
         \<and> snd (socket_data ds bytes (sock, d)) = d"
proof (cases "sum_list (map length (chunks sock)) + length (toString bytes) > MAX_BUFFER_SIZE")
  case True
  then show ?thesis by (simp add: socket_data_over)
next
  case False
  then have le: "sum_list (map length (chunks sock)) + length (toString bytes) \<le> MAX_BUFFER_SIZE"
    by simp
  have "is_http_request (trimStart (concat (chunks sock @ [toString bytes])))"
    using assms by simp
  then show ?thesis using assms(2) le by (simp add: socket_data_http)
qed

theorem http_request_terminated_witness:
  "terminated (fst (socket_data example_deps get_request (open_socket, example_daemon)))
   \<and> written (fst (socket_data example_deps get_request (open_socket, example_daemon))) = []
   \<and> snd (socket_data example_deps get_request (open_socket, example_daemon)) = example_daemon"
  using http_request_terminated [of open_socket get_request example_deps example_daemon]
    get_request_matches
  by (simp add: open_socket_def)


lemma length_concat_pairs: "length (concat (replicate n [a, b])) = 2 * n"
  by (induction n) simp_all

lemma utf8_decode_accented:
  "utf8_decode (concat (replicate n [0xC3, 0xA9])) = replicate n 0xE9"
  by (induction n) (simp_all add: decode_step_def in_range_def code_point_units_def)

lemma not_http_accented: "\<not> is_http_request (trimStart (0xE9 # s))"
  by (simp add: trimStart_def is_js_space_def is_http_request_def http_methods_def
      matches_method_def canonicalize_def ascii_simps)

lemma toString_accented: "toString accented_chunk = 0xE9 # replicate 2097152 0xE9"
proof -
  have "replicate (Suc 2097152) (0xE9 :: 16 word) = 0xE9 # replicate 2097152 0xE9"
    by (rule replicate_Suc)
  moreover have "Suc 2097152 = 2097153" by simp
  ultimately show ?thesis
    by (simp add: toString_def accented_chunk_def utf8_decode_accented)
qed

text \<open>
  Claim C4, as stated, fails: a first chunk of 4194306 bytes, more than the bound, whose
  decoded text has 2097153 code units, does not terminate the connection.
\<close>

theorem byte_bound_counterexample:
  "MAX_BUFFER_SIZE < length accented_chunk
   \<and> \<not> terminated (fst (socket_data example_deps accented_chunk (open_socket, example_daemon)))"
proof -
  have len: "length accented_chunk = 4194306"
    by (simp add: accented_chunk_def length_concat_pairs)
  have size: "sum_list (map length (chunks open_socket)) + length (toString accented_chunk)
              \<le> MAX_BUFFER_SIZE"
    by (simp add: toString_accented open_socket_def MAX_BUFFER_SIZE_value)
  have nh: "httpChecked open_socket
     \<or> \<not> is_http_request (trimStart (concat (chunks open_socket @ [toString accented_chunk])))"
    by (simp add: toString_accented open_socket_def not_http_accented)
  have "terminated (fst (socket_data example_deps accented_chunk (open_socket, example_daemon)))
        = terminated open_socket"
    by (rule socket_data_lines_terminated(1) [OF size nh])
  then show ?thesis using len by (simp add: open_socket_def MAX_BUFFER_SIZE_value)
qed

text \<open>
  Claim C4, amended. The guard measures string lengths, in UTF-16 code units: the connection
  is terminated, with nothing else changed, when the lengths of the buffered strings plus
  the length of the decoded chunk exceed 4194304, and at or below that bound the guard never
  terminates it (the connection's flag stays as it was unless the HTTP check fires). The
  decoded chunk is never longer than the bytes received, so at most 4194304 buffered bytes
  never trip the guard.
\<close>

theorem buffer_guard:
  "(MAX_BUFFER_SIZE < sum_list (map length (chunks sock)) + length (toString bytes)
      \<longrightarrow> socket_data ds bytes (sock, d) = (sock\<lparr>terminated := True\<rparr>, d))
   \<and> (sum_list (map length (chunks sock)) + length (toString bytes) \<le> MAX_BUFFER_SIZE
      \<and> (httpChecked sock
          \<or> \<not> is_http_request (trimStart (concat (chunks sock @ [toString bytes]))))
      \<longrightarrow> terminated (fst (socket_data ds bytes (sock, d))) = terminated sock)
   \<and> length (toString bytes) \<le> length bytes
   \<and> MAX_BUFFER_SIZE = 4194304"
  using socket_data_over [of sock bytes ds d]
    socket_data_lines_terminated(1) [of sock bytes ds d]
    utf8_decode_length [of bytes]
  by (simp add: toString_def MAX_BUFFER_SIZE_value)

theorem buffer_guard_witness:
  "socket_data example_deps [0x61] (full_socket, example_daemon)
     = (full_socket\<lparr>terminated := True\<rparr>, example_daemon)
   \<and> terminated (fst (socket_data example_deps [0x61] (open_socket, example_daemon))) = False"
proof -
  have t: "toString [0x61] = [0x61]"
    by (simp add: toString_def decode_step_def)
  have a: "MAX_BUFFER_SIZE < sum_list (map length (chunks full_socket)) + length (toString [0x61])"
    by (simp add: t full_socket_def MAX_BUFFER_SIZE_value)
  have b: "sum_list (map length (chunks open_socket)) + length (toString [0x61]) \<le> MAX_BUFFER_SIZE"
    by (simp add: t open_socket_def MAX_BUFFER_SIZE_value)
  have c: "\<not> is_http_request (trimStart (concat (chunks open_socket @ [toString [0x61]])))"
    by (simp add: t open_socket_def trimStart_def is_js_space_def is_http_request_def
        http_methods_def matches_method_def canonicalize_def ascii_simps)
  show ?thesis
    using buffer_guard [of full_socket "[0x61]" example_deps example_daemon]
      buffer_guard [of open_socket "[0x61]" example_deps example_daemon] a b c
    by (simp add: open_socket_def)
qed

subsection \<open>The HTTP check runs once\<close>

lemma toString_space: "toString [0x20] = [0x20]"
  by (simp add: toString_def decode_step_def)

lemma first_space:
  "socket_data example_deps [0x20] (open_socket, example_daemon)
   = (open_socket\<lparr>chunks := [[0x20]], httpChecked := True\<rparr>, example_daemon)"
proof -
  have sz: "sum_list (map length (chunks open_socket)) + length (toString [0x20]) \<le> MAX_BUFFER_SIZE"
    by (simp add: toString_space open_socket_def MAX_BUFFER_SIZE_value)
  have pl: "httpChecked open_socket
      \<or> \<not> is_http_request (trimStart (concat (chunks open_socket @ [toString [0x20]])))"
    by (simp add: toString_space open_socket_def trimStart_def is_js_space_def
        is_http_request_def http_methods_def matches_method_def ascii_simps)
  have l: "line_loop example_deps [0x20] ([], example_daemon) = (Finished [0x20], [], example_daemon)"
    by (simp add: line_loop.simps [of example_deps "[0x20]"] split_line_def newline_def)
  show ?thesis
    unfolding socket_data_lines [OF sz pl, of example_deps example_daemon]
    using l by (simp add: toString_space open_socket_def)
qed

lemma second_get_loop:
  "line_loop example_deps ((0x20 # ascii ''GET / HTTP/1.1'' @ [0x0D]) @ [newline] @ [])
      ([], example_daemon)
   = (Finished [], [ascii ''unknown error'' @ [newline]],
      example_daemon\<lparr>parse_log := [0x20 # ascii ''GET / HTTP/1.1'' @ [0x0D]]\<rparr>)"
proof -
  have n: "newline \<notin> set (0x20 # ascii ''GET / HTTP/1.1'' @ [0x0D])"
    by (simp add: ascii_simps newline_def)
  have t: "trim (0x20 # ascii ''GET / HTTP/1.1'' @ [0x0D]) \<noteq> []"
    by (simp add: trim_def ascii_simps is_js_space_def)
  have p: "process_line example_deps (0x20 # ascii ''GET / HTTP/1.1'' @ [0x0D]) ([], example_daemon)
     = (False, [ascii ''unknown error'' @ [newline]],
        example_daemon\<lparr>parse_log := [0x20 # ascii ''GET / HTTP/1.1'' @ [0x0D]]\<rparr>)"
    by (simp add: process_line_def Let_def example_deps_def example_parse_def
        write_response_def example_serialize_def errorResponse_def example_daemon_def
        startsWith_def ascii_simps)
  have e: "line_loop example_deps [] ([], example_daemon\<lparr>parse_log := [0x20 # ascii ''GET / HTTP/1.1'' @ [0x0D]]\<rparr>)
    = (Finished [], [], example_daemon\<lparr>parse_log := [0x20 # ascii ''GET / HTTP/1.1'' @ [0x0D]]\<rparr>)"
    by (simp add: line_loop.simps [of example_deps "[]"] split_line_def)
  show ?thesis
    unfolding line_loop.simps [of example_deps "(0x20 # ascii ''GET / HTTP/1.1'' @ [0x0D]) @ [newline] @ []"]
      split_line_first [OF n]
    using t p by (simp add: line_loop.simps [of example_deps "[]"] split_line_def)
qed

text \<open>
  Claim C10. The HTTP check is made on the first data event only. When the first chunk of a
  connection passes the size guard and does not match the HTTP request pattern, the
  connection is marked as checked and stays open; a later chunk within the size bound then
  never terminates it, whatever it starts with, and its output and the daemon's state are
  exactly those of the read loop run on the buffered text with the chunk appended.
\<close>

theorem http_check_once:
  assumes first: "socket_data ds b1 (open_socket, d) = (s1, d1)"
    and first_size: "length (toString b1) \<le> MAX_BUFFER_SIZE"
    and first_plain: "\<not> is_http_request (trimStart (toString b1))"
    and second_size:
      "sum_list (map length (chunks s1)) + length (toString b2) \<le> MAX_BUFFER_SIZE"
  shows "httpChecked s1 \<and> \<not> terminated s1
         \<and> \<not> terminated (fst (socket_data ds b2 (s1, d1)))
         \<and> (written (fst (socket_data ds b2 (s1, d1))), snd (socket_data ds b2 (s1, d1)))
             = snd (line_loop ds (concat (chunks s1 @ [toString b2])) (written s1, d1))"
proof -
  have sz: "sum_list (map length (chunks open_socket)) + length (toString b1) \<le> MAX_BUFFER_SIZE"
    using first_size by (simp add: open_socket_def)
  have pl: "httpChecked open_socket
      \<or> \<not> is_http_request (trimStart (concat (chunks open_socket @ [toString b1])))"
    using first_plain by (simp add: open_socket_def)
  from socket_data_lines_terminated [OF sz pl, of ds d] first
  have c: "httpChecked s1" and t: "\<not> terminated s1"
    by (simp_all add: open_socket_def)
  from c have h: "httpChecked s1
      \<or> \<not> is_http_request (trimStart (concat (chunks s1 @ [toString b2])))"
    by simp
  from socket_data_lines_terminated(1) [OF second_size h, of ds d1] t
  have t2: "\<not> terminated (fst (socket_data ds b2 (s1, d1)))" by simp
  have "(written (fst (socket_data ds b2 (s1, d1))), snd (socket_data ds b2 (s1, d1)))
             = snd (line_loop ds (concat (chunks s1 @ [toString b2])) (written s1, d1))"
    by (simp add: socket_data_lines [OF second_size h] split: prod.splits loop_exit.splits)
  with c t t2 show ?thesis by simp
qed

theorem http_check_once_witness:
  "is_http_request (trimStart (toString get_request))
   \<and> \<not> terminated (fst (socket_data example_deps get_request
         (open_socket\<lparr>chunks := [[0x20]], httpChecked := True\<rparr>, example_daemon)))
   \<and> written (fst (socket_data example_deps get_request
         (open_socket\<lparr>chunks := [[0x20]], httpChecked := True\<rparr>, example_daemon)))
       = [ascii ''unknown error'' @ [newline]]
   \<and> parse_log (snd (socket_data example_deps get_request
         (open_socket\<lparr>chunks := [[0x20]], httpChecked := True\<rparr>, example_daemon)))
       = [0x20 # ascii ''GET / HTTP/1.1'' @ [0x0D]]"
proof -
  have first_size: "length (toString [0x20]) \<le> MAX_BUFFER_SIZE"
    by (simp add: toString_space MAX_BUFFER_SIZE_value)
  have first_plain: "\<not> is_http_request (trimStart (toString [0x20]))"
    by (simp add: toString_space trimStart_def is_js_space_def
        is_http_request_def http_methods_def matches_method_def ascii_simps)
  have second_size: "sum_list (map length (chunks (open_socket\<lparr>chunks := [[0x20]], httpChecked := True\<rparr>)))
      + length (toString get_request) \<le> MAX_BUFFER_SIZE"
    by (simp add: toString_get_request MAX_BUFFER_SIZE_value ascii_simps)
  have buf: "concat (chunks (open_socket\<lparr>chunks := [[0x20]], httpChecked := True\<rparr>) @ [toString get_request])
      = (0x20 # ascii ''GET / HTTP/1.1'' @ [0x0D]) @ [newline] @ []"
    by (simp add: toString_get_request newline_def)
  show ?thesis
    using http_check_once [OF first_space first_size first_plain second_size]
      get_request_matches second_get_loop
    by (simp only: buf) (simp add: open_socket_def)
qed

subsection \<open>Session registry\<close>

lemma path_simps:
  "currentSession w1 = currentSession w \<Longrightarrow> getPidFile cfg w1 session = getPidFile cfg w session"
  "currentSession w1 = currentSession w \<Longrightarrow> getStreamPortFile cfg w1 session = getStreamPortFile cfg w session"
  "currentSession w1 = currentSession w \<Longrightarrow> getPortFile cfg w1 session = getPortFile cfg w session"
  "currentSession w1 = currentSession w \<Longrightarrow> getSocketAddress cfg w1 session = getSocketAddress cfg w session"
  by (simp_all add: getPidFile_def getStreamPortFile_def getPortFile_def getSocketAddress_def
      session_or_current_def split: option.splits)

lemma paths_files_upd [simp]:
  "getPidFile cfg (w\<lparr>files := f\<rparr>) session = getPidFile cfg w session"
  "getStreamPortFile cfg (w\<lparr>files := f\<rparr>) session = getStreamPortFile cfg w session"
  "getPortFile cfg (w\<lparr>files := f\<rparr>) session = getPortFile cfg w session"
  "getSocketAddress cfg (w\<lparr>files := f\<rparr>) session = getSocketAddress cfg w session"
  by (rule path_simps, simp)+

text \<open>One deletion that does not fail: a regular file goes, anything else stays.\<close>

lemma delete_if_exists_upd:
  "path \<notin> locked w \<Longrightarrow>
   delete_if_exists path w = Some (w\<lparr>files := unlink (files w) path\<rparr>)"
proof -
  assume l: "path \<notin> locked w"
  show ?thesis
  proof (cases "is_regular (files w path)")
    case True
    then have "(files w)(path := None) = unlink (files w) path"
      by (auto simp: fun_eq_iff unlink_def)
    with True l show ?thesis by (simp add: delete_if_exists_def exists_file_def)
  next
    case False
    then have "files w = unlink (files w) path"
      by (auto simp: fun_eq_iff unlink_def)
    then have "w = w\<lparr>files := unlink (files w) path\<rparr>"
      by simp
    with False show ?thesis by (simp add: delete_if_exists_def exists_file_def)
  qed
qed

lemma is_regular_None [simp]: "\<not> is_regular None"
  by (simp add: is_regular_def)

lemma cleanup_files_eq:
  assumes "marker_files cfg w session \<inter> locked w = {}"
  shows "cleanup_files cfg session w = w\<lparr>files := cleaned cfg w session\<rparr>"
proof -
  let ?pid = "getPidFile cfg w session"
  let ?stream = "getStreamPortFile cfg w session"
  let ?last = "if isWindows cfg then getPortFile cfg w session else getSocketAddress cfg w session"
  let ?f1 = "unlink (files w) ?pid"
  let ?f2 = "unlink ?f1 ?stream"
  let ?f3 = "unlink ?f2 ?last"
  from assms have l: "?pid \<notin> locked w" "?stream \<notin> locked w" "?last \<notin> locked w"
    by (auto simp: marker_files_def)
  have d1: "delete_if_exists ?pid w = Some (w\<lparr>files := ?f1\<rparr>)"
    by (rule delete_if_exists_upd [OF l(1)])
  have d2: "delete_if_exists ?stream (w\<lparr>files := ?f1\<rparr>) = Some (w\<lparr>files := ?f2\<rparr>)"
    using delete_if_exists_upd [of ?stream "w\<lparr>files := ?f1\<rparr>"] l(2) by simp
  have d3: "delete_if_exists ?last (w\<lparr>files := ?f2\<rparr>) = Some (w\<lparr>files := ?f3\<rparr>)"
    using delete_if_exists_upd [of ?last "w\<lparr>files := ?f2\<rparr>"] l(3) by simp
  have c: "cleanup_files cfg session w = w\<lparr>files := ?f3\<rparr>"
    using d1 d2 d3 by (cases "isWindows cfg") (simp_all add: cleanup_files_def)
  have f: "?f3 = cleaned cfg w session"
    by (auto simp: cleaned_def unlink_def marker_files_def fun_eq_iff)
  show ?thesis unfolding c f by (rule refl)
qed

lemma marker_files_upd [simp]:
  "marker_files cfg (w\<lparr>files := f\<rparr>) session = marker_files cfg w session"
  "marker_files cfg (w\<lparr>cleaningUp := c\<rparr>) session = marker_files cfg w session"
proof -
  show "marker_files cfg (w\<lparr>files := f\<rparr>) session = marker_files cfg w session"
    by (simp add: marker_files_def)
  have cs: "currentSession (w\<lparr>cleaningUp := c\<rparr>) = currentSession w" by simp
  show "marker_files cfg (w\<lparr>cleaningUp := c\<rparr>) session = marker_files cfg w session"
    unfolding marker_files_def path_simps [OF cs] by (rule refl)
qed

lemma cleaned_upd [simp]:
  "cleaned cfg (w\<lparr>cleaningUp := c\<rparr>) session = cleaned cfg w session"
  by (simp add: cleaned_def cong: if_cong)

lemma cleanupSocket_eq:
  assumes l: "marker_files cfg w session \<inter> locked w = {}"
    and c: "session_or_current w session \<notin> cleaningUp w"
  shows "cleanupSocket cfg session w = w\<lparr>files := cleaned cfg w session\<rparr>"
proof -
  let ?w0 = "w\<lparr>cleaningUp := insert (session_or_current w session) (cleaningUp w)\<rparr>"
  have l0: "marker_files cfg ?w0 session \<inter> locked ?w0 = {}"
    using l by simp
  have i: "insert (session_or_current w session) (cleaningUp w) - {session_or_current w session}
      = cleaningUp w"
    using c by auto
  show ?thesis
    using c by (simp add: cleanupSocket_def Let_def cleanup_files_eq [OF l0] i)
qed




lemma isDaemonRunning_outcomes:
  "(\<not> exists_file w (getPidFile cfg w session)
      \<longrightarrow> isDaemonRunning cfg session w = (False, w))
   \<and> (\<forall>text. files w (getPidFile cfg w session) = Some (Regular text)
         \<and> probe w (parseInt10 (trim text))
      \<longrightarrow> isDaemonRunning cfg session w = (True, w))
   \<and> (\<forall>text. files w (getPidFile cfg w session) = Some (Regular text)
         \<and> \<not> probe w (parseInt10 (trim text))
      \<longrightarrow> fst (isDaemonRunning cfg session w) = False
          \<and> (marker_files cfg w session \<inter> locked w = {}
               \<and> session_or_current w session \<notin> cleaningUp w
             \<longrightarrow> files (snd (isDaemonRunning cfg session w)) = cleaned cfg w session))"
  using cleanupSocket_eq [of cfg w session]
  by (auto simp: isDaemonRunning_def exists_file_def is_regular_def
      split: option.splits entry.splits)

lemma example_paths:
  "getPidFile example_config example_world None = ascii ''/run/user/1000/agent-browser/default.pid''"
  "getStreamPortFile example_config example_world None = ascii ''/run/user/1000/agent-browser/default.stream''"
  "getSocketAddress example_config example_world None = ascii ''/run/user/1000/agent-browser/default.sock''"
  by (simp_all add: getPidFile_def getStreamPortFile_def getSocketAddress_def getSocketDir_def
      getAppDir_def or_empty_def session_or_current_def example_config_def example_world_def
      ascii_simps)

lemma example_pid_dead:
  "files example_world (getPidFile example_config example_world None)
     = Some (Regular (ascii ''4242''))"
  "\<not> probe example_world (parseInt10 (trim (ascii ''4242'')))"
proof -
  show "files example_world (getPidFile example_config example_world None)
     = Some (Regular (ascii ''4242''))"
    unfolding example_paths by (simp add: example_world_def example_files_def ascii_simps)
  have "parseInt10 (trim (ascii ''4242'')) = Exact 4242"
    by (simp add: parseInt10_def trim_def trimStart_def is_js_space_def is_digit_def
        digits_value_def ascii_simps Let_def)
  then show "\<not> probe example_world (parseInt10 (trim (ascii ''4242'')))"
    by (simp add: probe_def example_world_def)
qed

lemma example_world_markers:
  "marker_files example_config example_world None
     = {ascii ''/run/user/1000/agent-browser/default.pid'',
        ascii ''/run/user/1000/agent-browser/default.stream'',
        ascii ''/run/user/1000/agent-browser/default.sock''}"
  unfolding marker_files_def example_paths by (simp add: example_config_def)

text \<open>
  Claim C6. The claim holds for the value that \<open>isDaemonRunning\<close> returns, and fails
  for the removal of the marker files. Here the session \<open>default\<close> has a PID file naming
  the process 4242, which does not exist, a stream port file and the socket that the dead
  daemon left. \<open>isDaemonRunning\<close> returns false and the cleanup removes the PID file and
  the stream port file, but the socket file is still there: \<open>cleanupSocket\<close> deletes a
  path only where \<open>exists()\<close> is true, which it is not for a socket.
\<close>

theorem stale_socket_left:
  "fst (isDaemonRunning example_config None example_world) = False
   \<and> files (snd (isDaemonRunning example_config None example_world))
        (ascii ''/run/user/1000/agent-browser/default.pid'') = None
   \<and> files (snd (isDaemonRunning example_config None example_world))
        (ascii ''/run/user/1000/agent-browser/default.stream'') = None
   \<and> files (snd (isDaemonRunning example_config None example_world))
        (ascii ''/run/user/1000/agent-browser/default.sock'') = Some Socket"
proof -
  have l: "marker_files example_config example_world None \<inter> locked example_world = {}"
    by (simp add: example_world_def)
  have c: "session_or_current example_world None \<notin> cleaningUp example_world"
    by (simp add: example_world_def)
  have f: "files example_world (ascii ''/run/user/1000/agent-browser/default.pid'')
             = Some (Regular (ascii ''4242''))"
    "files example_world (ascii ''/run/user/1000/agent-browser/default.stream'')
             = Some (Regular (ascii ''9223''))"
    "files example_world (ascii ''/run/user/1000/agent-browser/default.sock'') = Some Socket"
    by (simp_all add: example_world_def example_files_def ascii_simps)
  have r: "files (snd (isDaemonRunning example_config None example_world))
      = cleaned example_config example_world None"
    and v: "fst (isDaemonRunning example_config None example_world) = False"
    using isDaemonRunning_outcomes [of example_world example_config None] l c example_pid_dead
    by simp_all
  show ?thesis
    unfolding r cleaned_def example_world_markers using v f
    by (simp add: is_regular_def)
qed

subsection \<open>Stream Server\<close>

lemma handleOpen_first:
  assumes "clientCount s = 0" and "\<not> isScreencasting s" and "isLaunched b"
    and "start_error eng = None"
  shows "isScreencasting (fst (handleOpen eng w (s, b)))"
    and "capturing (snd (handleOpen eng w (s, b)))"
    and "capture_starts (snd (handleOpen eng w (s, b))) = capture_starts b + 1"
    and "clientCount (fst (handleOpen eng w (s, b))) = 1"
    and "server s \<Longrightarrow> page b = Some viewport \<Longrightarrow>
         received (fst (handleOpen eng w (s, b))) w
           = received s w @ [StatusMessage True False viewport, StatusMessage True True viewport]"
  using assms
  by (simp_all add: handleOpen_def Let_def sendStatus_def statusMessage_def startScreencast_def
      broadcastStatus_def publish_def send_def split: option.splits)

lemma handleOpen_unlaunched:
  assumes "clientCount s = 0" and "\<not> isScreencasting s" and "\<not> isLaunched b"
  shows "\<not> isScreencasting (fst (handleOpen eng w (s, b)))"
    and "snd (handleOpen eng w (s, b)) = b"
    and "received (fst (handleOpen eng w (s, b))) w
           = received (sendStatus w s b) w @ [ErrorMessage (ascii ''Browser not launched'')]"
  using assms
  by (simp_all add: handleOpen_def Let_def sendStatus_def statusMessage_def startScreencast_def
      sendError_def send_def split: option.splits)

lemma handleOpen_later:
  assumes "clientCount s \<noteq> 0 \<or> isScreencasting s"
  shows "snd (handleOpen eng w (s, b)) = b"
    and "isScreencasting (fst (handleOpen eng w (s, b))) = isScreencasting s"
    and "clientCount (fst (handleOpen eng w (s, b))) = clientCount s + 1"
  using assms
  by (auto simp: handleOpen_def Let_def sendStatus_def statusMessage_def send_def
      split: option.splits)

lemma handleClose_remaining:
  assumes "clientCount s \<noteq> 1"
  shows "snd (handleClose eng w (s, b)) = b"
    and "isScreencasting (fst (handleClose eng w (s, b))) = isScreencasting s"
    and "clientCount (fst (handleClose eng w (s, b))) = clientCount s - 1"
  using assms by (simp_all add: handleClose_def Let_def)

lemma handleClose_last:
  assumes "clientCount s = 1" and "isScreencasting s" and "stop_error eng = None"
  shows "\<not> isScreencasting (fst (handleClose eng w (s, b)))"
    and "\<not> capturing (snd (handleClose eng w (s, b)))"
    and "capture_stops (snd (handleClose eng w (s, b))) = capture_stops b + 1"
    and "clientCount (fst (handleClose eng w (s, b))) = 0"
  using assms
  by (simp_all add: handleClose_def Let_def stopScreencast_def broadcastStatus_def
      statusMessage_def publish_def split: option.splits)

text \<open>
  Claim C2, as stated, fails: with the browser not launched, the first viewer to connect is
  the only subscriber, yet the capture pipeline is not started; the viewer is sent an error
  message.
\<close>

theorem first_viewer_counterexample:
  "clientCount (fst (handleOpen example_engine 1
       (start_server (new_stream_server 9223), unlaunched_browser))) = 1
   \<and> \<not> isScreencasting (fst (handleOpen example_engine 1
       (start_server (new_stream_server 9223), unlaunched_browser)))
   \<and> \<not> capturing (snd (handleOpen example_engine 1
       (start_server (new_stream_server 9223), unlaunched_browser)))
   \<and> capture_starts (snd (handleOpen example_engine 1
       (start_server (new_stream_server 9223), unlaunched_browser))) = 0
   \<and> received (fst (handleOpen example_engine 1
       (start_server (new_stream_server 9223), unlaunched_browser))) 1
       = [ErrorMessage (ascii ''Browser not launched'')]"
  by (simp add: handleOpen_def Let_def sendStatus_def statusMessage_def startScreencast_def
      isLaunched_def sendError_def send_def start_server_def new_stream_server_def
      unlaunched_browser_def example_engine_def)

text \<open>
  Claim C2, amended. When a viewer connects as the first subscriber while no capture runs,
  the capture pipeline is started if the browser is launched and the engine's start call
  succeeds, and the status then broadcast, which reaches the viewer, reports screencasting
  true (when the Stream Server listens and the engine has a page); if the browser is not
  launched, capture is not started, the engine is left alone and the viewer is sent the
  error \<open>Browser not launched\<close>. When a viewer connects while others are subscribed or
  capture runs, the pipeline is not started again. When a viewer disconnects and it is not
  the only subscriber, the pipeline is left as it is. When the only subscriber disconnects
  while capture runs, the pipeline is stopped, if the engine's stop call succeeds.
\<close>

theorem subscriber_counted_capture:
  "(clientCount s = 0 \<and> \<not> isScreencasting s \<and> isLaunched b \<and> start_error eng = None
      \<longrightarrow> isScreencasting (fst (handleOpen eng w (s, b)))
          \<and> capturing (snd (handleOpen eng w (s, b)))
          \<and> capture_starts (snd (handleOpen eng w (s, b))) = capture_starts b + 1
          \<and> (\<forall>viewport. server s \<and> page b = Some viewport
                \<longrightarrow> last (received (fst (handleOpen eng w (s, b))) w)
                      = StatusMessage True True viewport))
   \<and> (clientCount s = 0 \<and> \<not> isScreencasting s \<and> \<not> isLaunched b
      \<longrightarrow> \<not> isScreencasting (fst (handleOpen eng w (s, b)))
          \<and> snd (handleOpen eng w (s, b)) = b
          \<and> last (received (fst (handleOpen eng w (s, b))) w)
              = ErrorMessage (ascii ''Browser not launched''))
   \<and> (clientCount s \<noteq> 0 \<or> isScreencasting s
      \<longrightarrow> snd (handleOpen eng w (s, b)) = b
          \<and> isScreencasting (fst (handleOpen eng w (s, b))) = isScreencasting s)
   \<and> (clientCount s \<noteq> 1
      \<longrightarrow> snd (handleClose eng w (s, b)) = b
          \<and> isScreencasting (fst (handleClose eng w (s, b))) = isScreencasting s)
   \<and> (clientCount s = 1 \<and> isScreencasting s \<and> stop_error eng = None
      \<longrightarrow> \<not> isScreencasting (fst (handleClose eng w (s, b)))
          \<and> \<not> capturing (snd (handleClose eng w (s, b)))
          \<and> capture_stops (snd (handleClose eng w (s, b))) = capture_stops b + 1)"
  using handleOpen_first [where s = s and b = b and eng = eng and w = w]
    handleOpen_unlaunched [where s = s and b = b and eng = eng and w = w]
    handleOpen_later [where s = s and b = b and eng = eng and w = w]
    handleClose_remaining [where s = s and b = b and eng = eng and w = w]
    handleClose_last [where s = s and b = b and eng = eng and w = w]
  by simp


lemmas stream_defs =
  handleOpen_def handleClose_def Let_def sendStatus_def statusMessage_def startScreencast_def
  stopScreencast_def broadcastStatus_def publish_def send_def sendError_def isLaunched_def
  start_server_def new_stream_server_def example_browser_def example_engine_def
  fresh_stream_def

theorem subscriber_counted_capture_witness:
  "capture_starts (snd (handleOpen example_engine 1 fresh_stream)) = 1
   \<and> last (received (fst (handleOpen example_engine 1 fresh_stream)) 1)
       = StatusMessage True True (Some (1280, 720))
   \<and> capture_starts (snd (handleOpen example_engine 2
         (handleOpen example_engine 1 fresh_stream))) = 1
   \<and> capturing (snd (handleClose example_engine 1
         (handleOpen example_engine 2 (handleOpen example_engine 1 fresh_stream))))
   \<and> \<not> capturing (snd (handleClose example_engine 2
         (handleClose example_engine 1
           (handleOpen example_engine 2 (handleOpen example_engine 1 fresh_stream)))))
   \<and> \<not> isScreencasting (fst (handleOpen example_engine 1
         (start_server (new_stream_server 9223), unlaunched_browser)))"
proof -
  obtain s1 b1 where o1: "handleOpen example_engine 1 fresh_stream = (s1, b1)"
    by (cases "handleOpen example_engine 1 fresh_stream")
  obtain s2 b2 where o2: "handleOpen example_engine 2 (s1, b1) = (s2, b2)"
    by (cases "handleOpen example_engine 2 (s1, b1)")
  obtain s3 b3 where c1: "handleClose example_engine 1 (s2, b2) = (s3, b3)"
    by (cases "handleClose example_engine 1 (s2, b2)")
  have f0: "clientCount (fst fresh_stream) = 0" "\<not> isScreencasting (fst fresh_stream)"
    "isLaunched (snd fresh_stream)" "start_error example_engine = None"
    "stop_error example_engine = None" "server (fst fresh_stream)"
    "page (snd fresh_stream) = Some (Some (1280, 720))" "capture_starts (snd fresh_stream) = 0"
    by (simp_all add: stream_defs)
  have u0: "clientCount (start_server (new_stream_server 9223)) = 0"
    "\<not> isScreencasting (start_server (new_stream_server 9223))"
    "\<not> isLaunched unlaunched_browser"
    by (simp_all add: stream_defs unlaunched_browser_def)
  have t0: "fresh_stream = (fst fresh_stream, snd fresh_stream)" by simp
  note first = subscriber_counted_capture
    [of "fst fresh_stream" "snd fresh_stream" example_engine 1]
  have s1: "isScreencasting s1" "capturing b1" "capture_starts b1 = 1"
    "last (received s1 1) = StatusMessage True True (Some (1280, 720))"
    using first f0 o1 by simp_all
  have n1: "clientCount s1 = 1"
    using handleOpen_first(4) [of "fst fresh_stream" "snd fresh_stream" example_engine 1] f0 o1
    by simp
  note second = subscriber_counted_capture [of s1 b1 example_engine 2]
  have s2: "b2 = b1" "isScreencasting s2" using second s1 o2 by simp_all
  have n2: "clientCount s2 = 2"
    using handleOpen_later(3) [of s1 example_engine 2 b1] s1 n1 o2 by simp
  note third = subscriber_counted_capture [of s2 b2 example_engine 1]
  have s3: "b3 = b2" "isScreencasting s3" using third n2 s2 c1 by simp_all
  have n3: "clientCount s3 = 1"
    using handleClose_remaining(3) [of s2 example_engine 1 b2] n2 c1 by simp
  note fourth = subscriber_counted_capture [of s3 b3 example_engine 2]
  have s4: "\<not> capturing (snd (handleClose example_engine 2 (s3, b3)))"
    using fourth n3 s3 f0 by simp
  note unlaunched = subscriber_counted_capture
    [of "start_server (new_stream_server 9223)" unlaunched_browser example_engine 1]
  have s5: "\<not> isScreencasting (fst (handleOpen example_engine 1
         (start_server (new_stream_server 9223), unlaunched_browser)))"
    using unlaunched u0 by simp
  show ?thesis
    unfolding o1 o2 c1 using s1 s2 s3 s4 s5 by simp
qed

lemma handle_body_raises:
  "handle_body eng w data sb = Inl e \<longleftrightarrow>
     data = SyntaxError e \<or> data = NullValue e
     \<or> (\<exists>ev. data = InputMouse ev \<and> inject_error eng (MouseEvent ev) = Some e)
     \<or> (\<exists>ev. data = InputKeyboard ev \<and> inject_error eng (KeyboardEvent ev) = Some e)
     \<or> (\<exists>ev. data = InputTouch ev \<and> inject_error eng (TouchEvent ev) = Some e)"
  by (cases data) (auto simp: inject_def split: option.splits)

text \<open>
  Claim C8. An inbound message is malformed when the parser raises on it, when it parses to
  \<open>null\<close>, or when the engine's injection call for it raises. The error is then caught:
  the viewer that sent the message is sent one error message with the error's text, no
  other viewer is sent anything, every connection stays open, and nothing else of the Stream
  Server or the browser changes.
\<close>

theorem malformed_message_contained:
  "(handle_body eng w data (s, b) = Inl e \<longleftrightarrow>
      data = SyntaxError e \<or> data = NullValue e
      \<or> (\<exists>ev. data = InputMouse ev \<and> inject_error eng (MouseEvent ev) = Some e)
      \<or> (\<exists>ev. data = InputKeyboard ev \<and> inject_error eng (KeyboardEvent ev) = Some e)
      \<or> (\<exists>ev. data = InputTouch ev \<and> inject_error eng (TouchEvent ev) = Some e))
   \<and> (handle_body eng w data (s, b) = Inl e
      \<longrightarrow> handleMessage eng w data (s, b)
            = (s\<lparr>received := (received s)(w := received s w @ [ErrorMessage e])\<rparr>, b)
          \<and> (\<forall>v. v \<noteq> w
                \<longrightarrow> received (fst (handleMessage eng w data (s, b))) v = received s v)
          \<and> connections (fst (handleMessage eng w data (s, b))) = connections s)"
proof (rule conjI)
  show "handle_body eng w data (s, b) = Inl e \<longleftrightarrow>
      data = SyntaxError e \<or> data = NullValue e
      \<or> (\<exists>ev. data = InputMouse ev \<and> inject_error eng (MouseEvent ev) = Some e)
      \<or> (\<exists>ev. data = InputKeyboard ev \<and> inject_error eng (KeyboardEvent ev) = Some e)
      \<or> (\<exists>ev. data = InputTouch ev \<and> inject_error eng (TouchEvent ev) = Some e)"
    by (rule handle_body_raises)
next
  show "handle_body eng w data (s, b) = Inl e
      \<longrightarrow> handleMessage eng w data (s, b)
            = (s\<lparr>received := (received s)(w := received s w @ [ErrorMessage e])\<rparr>, b)
          \<and> (\<forall>v. v \<noteq> w
                \<longrightarrow> received (fst (handleMessage eng w data (s, b))) v = received s v)
          \<and> connections (fst (handleMessage eng w data (s, b))) = connections s"
    by (simp add: handleMessage_def sendError_def send_def)
qed

theorem malformed_message_contained_witness:
  "handleMessage example_engine 1 (SyntaxError (ascii ''Unexpected token'')) fresh_stream
     = ((fst fresh_stream)\<lparr>received :=
           (received (fst fresh_stream))(1 := [ErrorMessage (ascii ''Unexpected token'')])\<rparr>,
        example_browser)
   \<and> received (fst (handleMessage failing_engine 1 (InputMouse (ascii ''{}'')) fresh_stream)) 1
       = [ErrorMessage (ascii ''No page'')]
   \<and> received (fst (handleMessage failing_engine 1 (InputMouse (ascii ''{}'')) fresh_stream)) 2
       = []"
proof -
  have f: "fresh_stream = (fst fresh_stream, example_browser)"
    by (simp add: fresh_stream_def)
  have r: "received (fst fresh_stream) = (\<lambda>_. [])"
    by (simp add: fresh_stream_def start_server_def new_stream_server_def)
  have h: "handle_body failing_engine 1 (InputMouse (ascii ''{}''))
       (fst fresh_stream, example_browser) = Inl (ascii ''No page'')"
    by (simp add: inject_def failing_engine_def)
  show ?thesis
    using malformed_message_contained
        [of example_engine 1 "SyntaxError (ascii ''Unexpected token'')" "fst fresh_stream"
          example_browser "ascii ''Unexpected token''"]
      malformed_message_contained
        [of failing_engine 1 "InputMouse (ascii ''{}'')" "fst fresh_stream" example_browser
          "ascii ''No page''"]
      h f r
    by simp
qed

text \<open>
  Claim C5. A connection that declares an origin which is not empty and does not start with
  \<open>file://\<close> is answered with status 403 and not upgraded. A connection that declares
  no origin, an empty origin or an origin that starts with \<open>file://\<close> passes the
  filter: the upgrade is attempted, and the answer is the upgrade or, when the upgrade
  fails, status 400.
\<close>

theorem origin_filter:
  "(origin = Some v \<and> v \<noteq> [] \<and> \<not> startsWith v (ascii ''file://'')
      \<longrightarrow> fetch origin upgrade_ok = Forbidden403)
   \<and> (origin = None \<or> origin = Some [] \<or> (origin = Some v \<and> startsWith v (ascii ''file://''))
      \<longrightarrow> fetch origin upgrade_ok = (if upgrade_ok then Upgraded else UpgradeFailed400))"
  by (auto simp: fetch_def or_empty_def)

theorem origin_filter_witness:
  "fetch (Some (ascii ''https://evil.example'')) True = Forbidden403
   \<and> fetch None True = Upgraded
   \<and> fetch (Some (ascii ''file:///home/u/viewer.html'')) True = Upgraded"
proof -
  have a: "\<not> startsWith (ascii ''https://evil.example'') (ascii ''file://'')"
    by (simp add: startsWith_def ascii_simps)
  have b: "startsWith (ascii ''file:///home/u/viewer.html'') (ascii ''file://'')"
    by (simp add: startsWith_def ascii_simps)
  have c: "ascii ''https://evil.example'' \<noteq> []" by (simp add: ascii_simps)
  show ?thesis
    using origin_filter [of "Some (ascii ''https://evil.example'')" "ascii ''https://evil.example''" True]
      origin_filter [of None "[]" True]
      origin_filter [of "Some (ascii ''file:///home/u/viewer.html'')" "ascii ''file:///home/u/viewer.html''" True]
      a b c
    by simp
qed

subsection \<open>Shutdown\<close>


















end
